theory Spec2Isabelle
  imports Main "HOL-Library.Sublist"
begin

section \<open>Strings and arrays as the plugin uses them\<close>

text \<open>
  A JavaScript string is modelled as a \<open>string\<close> (a list of characters), an array of
  strings as a \<open>string list\<close>.  Characters outside ASCII (the star glyphs) are written as
  their UTF-8 bytes.  \<open>LF\<close> is the character \<^verbatim>\<open>\n\<close>, \<open>CR\<close> is \<^verbatim>\<open>\r\<close>.
\<close>

definition LF :: char where
  "LF = CHR 0x0A"

definition CR :: char where
  "CR = CHR 0x0D"

text \<open>
  \<^verbatim>\<open>s.split(c)\<close> for a one-character separator: the pieces between the occurrences of
  \<open>c\<close>; never the empty array (\<^verbatim>\<open>''.split('\n')\<close> is \<^verbatim>\<open>['']\<close>).
\<close>

fun split :: "char \<Rightarrow> string \<Rightarrow> string list" where
  "split c [] = [[]]"
| "split c (x # xs) =
     (if x = c then [] # split c xs
      else (case split c xs of [] \<Rightarrow> [[x]] | l # ls \<Rightarrow> (x # l) # ls))"

text \<open>\<^verbatim>\<open>arr.join(sep)\<close>: the empty array gives the empty string.\<close>

fun join :: "string \<Rightarrow> string list \<Rightarrow> string" where
  "join sep [] = []"
| "join sep [x] = x"
| "join sep (x # y # ys) = x @ sep @ join sep (y # ys)"

text \<open>\<^verbatim>\<open>s.contains(t)\<close> (Obsidian's alias of \<^verbatim>\<open>includes\<close>): \<open>t\<close> occurs in \<open>s\<close>.\<close>

fun contains :: "string \<Rightarrow> string \<Rightarrow> bool" where
  "contains [] t = (t = [])"
| "contains (x # xs) t = (prefix t (x # xs) \<or> contains xs t)"

text \<open>\<^verbatim>\<open>s.endsWith(t)\<close>.\<close>

definition endsWith :: "string \<Rightarrow> string \<Rightarrow> bool" where
  "endsWith s t = suffix t s"

section \<open>The front matter written back: \<^verbatim>\<open>objToFrontmatter\<close>\<close>

text \<open>
  The host hands the parsed front matter of the note to the plugin as an object
  (\<^verbatim>\<open>Record<string, any>\<close>).  It is modelled as the list of its keys, in the order
  \<^verbatim>\<open>for (const key in obj)\<close> enumerates them, each with its value: an array (its
  elements as the template literal prints them) or anything else (as the template literal
  prints it).
\<close>

datatype fm_value = Scalar string | Array "string list"

type_synonym fm_obj = "(string \<times> fm_value) list"

fun fm_entry :: "string \<times> fm_value \<Rightarrow> string" where
  "fm_entry (key, Array vs) = key @ '':'' @ [LF] @ concat (map (\<lambda>v. ''  - '' @ v @ [LF]) vs)"
| "fm_entry (key, Scalar v) = key @ '': '' @ v @ [LF]"

definition objToFrontmatter :: "fm_obj \<Rightarrow> string" where
  "objToFrontmatter obj = ''---'' @ [LF] @ concat (map fm_entry obj) @ ''---'' @ [LF]"

text \<open>
  The callback given to \<^verbatim>\<open>processFrontMatter\<close>: \<^verbatim>\<open>frontMatter\<close> starts as \<^verbatim>\<open>''\<close> and is
  set only when the object has a key.
\<close>

definition frontMatterOf :: "fm_obj \<Rightarrow> string" where
  "frontMatterOf data = (if length data \<noteq> 0 then objToFrontmatter data else [])"

section \<open>The merge: the callback given to \<^verbatim>\<open>vault.process\<close>\<close>

text \<open>
  The loop that drops the lines of the front matter: it shifts lines off the array until it
  has seen the line \<^verbatim>\<open>---\<close> twice, or until the array is empty.  \<open>count\<close> is the number of
  delimiters seen so far.
\<close>

fun skipFrontMatter :: "nat \<Rightarrow> string list \<Rightarrow> string list" where
  "skipFrontMatter count [] = []"
| "skipFrontMatter count (firstElement # rest) =
     (if firstElement = ''---''
      then (if count + 1 = 2 then rest else skipFrontMatter (count + 1) rest)
      else skipFrontMatter count rest)"

text \<open>\<^verbatim>\<open>diaryContentsArr\<close> as it stands after the loop.\<close>

definition diaryContentsArr :: "string \<Rightarrow> string \<Rightarrow> string list" where
  "diaryContentsArr frontMatter data =
     (if length frontMatter \<noteq> 0 then skipFrontMatter 0 (split LF data) else split LF data)"

text \<open>\<^verbatim>\<open>diaryMdArr.filter(entry => !diaryContentsSet.has(entry))\<close>.\<close>

definition newEntries :: "string list \<Rightarrow> string list \<Rightarrow> string list" where
  "newEntries contents diaryMdArr =
     (let diaryContentsSet = set contents
      in filter (\<lambda>entry. entry \<notin> diaryContentsSet) diaryMdArr)"

text \<open>
  The splice.  \<open>srt\<close> is the setting \<^verbatim>\<open>settings.sort\<close>, a string: \<^verbatim>\<open>'Old'\<close> (oldest first,
  ascending) or anything else (the settings tab offers \<^verbatim>\<open>'New'\<close>, newest first).
\<close>

definition finalEntries :: "string \<Rightarrow> string list \<Rightarrow> string list \<Rightarrow> string list" where
  "finalEntries srt contents diaryMdArr =
     (if srt = ''Old'' then contents @ newEntries contents diaryMdArr
      else newEntries contents diaryMdArr @ contents)"

definition processCallback :: "string \<Rightarrow> string \<Rightarrow> string list \<Rightarrow> string \<Rightarrow> string" where
  "processCallback frontMatter srt diaryMdArr data =
     (let contents = diaryContentsArr frontMatter data;
          final = finalEntries srt contents diaryMdArr
      in if length frontMatter \<noteq> 0 then frontMatter @ join [LF] final else join [LF] final)"

text \<open>
  The whole write for one run, given the rendered lines: a missing note is created with
  the lines joined, an existing one is rewritten by \<open>processCallback\<close>.  \<open>fm\<close> is the object
  the host parsed from the existing note.
\<close>

definition mergeNote :: "fm_obj \<Rightarrow> string \<Rightarrow> string list \<Rightarrow> string option \<Rightarrow> string" where
  "mergeNote fm srt diaryMdArr existing =
     (case existing of
        None \<Rightarrow> join [LF] diaryMdArr
      | Some data \<Rightarrow> processCallback (frontMatterOf fm) srt diaryMdArr data)"

section \<open>Settings, feed entries and the host\<close>

datatype callout_style = List | ListReview | Callout | CalloutPoster

record settings =
  username :: string
  dateFormat :: string
  path :: string
  sort :: string
  callout :: callout_style
  stars :: int
  addReferenceId :: bool

text \<open>
  One item of the feed.  The rating (\<^verbatim>\<open>letterboxd:memberRating\<close>) is a number or
  \<^verbatim>\<open>undefined\<close>; the feed gives multiples of one half, so a present rating is modelled by
  its number of half stars: \<open>Some 7\<close> is the number 3.5.
\<close>

record rss_entry =
  title :: string
  link :: string
  guid :: string
  pubDate :: string
  watchedDate :: string
  filmTitle :: string
  memberRating :: "nat option"
  description :: string

text \<open>
  What the plugin asks of its surroundings (the DOM, moment, the network with the XML
  parser, \<^verbatim>\<open>Date\<close>, and Obsidian's path and front matter functions), as functions the
  model is given:
  \<^item> \<open>textareaValue\<close>: the \<^verbatim>\<open>value\<close> of a textarea whose \<^verbatim>\<open>innerHTML\<close> is the text;
  \<^item> \<open>imgSrc\<close>: the \<^verbatim>\<open>src\<close> of the first \<^verbatim>\<open>img\<close> of the description, if there is one;
  \<^item> \<open>paragraphTexts\<close>: the \<^verbatim>\<open>textContent\<close> of each \<^verbatim>\<open>p\<close> of the description, in order;
  \<^item> \<open>momentFormat d f\<close>: \<^verbatim>\<open>moment(d).format(f)\<close>;
  \<^item> \<open>requestItems url\<close>: the array \<^verbatim>\<open>jObj.rss.channel.item\<close> of the feed fetched from \<open>url\<close>
    and parsed, \<open>None\<close> when the request or the parse fails or gives no array (the promise
    chain is then not continued);
  \<^item> \<open>getTime\<close>: \<^verbatim>\<open>new Date(pubDate).getTime()\<close>, for dates that parse;
  \<^item> \<open>normalizePath\<close>;
  \<^item> \<open>parseFrontMatter\<close>: the object \<^verbatim>\<open>processFrontMatter\<close> passes to its callback for a
    note with the given text.
\<close>

record host =
  textareaValue :: "string \<Rightarrow> string"
  imgSrc :: "string \<Rightarrow> string option"
  paragraphTexts :: "string \<Rightarrow> string list"
  momentFormat :: "string \<Rightarrow> string \<Rightarrow> string"
  requestItems :: "string \<Rightarrow> rss_entry list option"
  getTime :: "string \<Rightarrow> int"
  normalizePath :: "string \<Rightarrow> string"
  parseFrontMatter :: "string \<Rightarrow> fm_obj"

section \<open>The renderer\<close>

definition decodeHtmlEntities :: "host \<Rightarrow> string \<Rightarrow> string" where
  "decodeHtmlEntities h text = textareaValue h text"

text \<open>Decimal digits of a natural number, and a rating as \<^verbatim>\<open>${rating}\<close> prints it.\<close>

fun showNat :: "nat \<Rightarrow> string" where
  "showNat n = (if n < 10 then [''0123456789'' ! n]
                else showNat (n div 10) @ [''0123456789'' ! (n mod 10)])"

declare showNat.simps [simp del]

definition showRating :: "nat \<Rightarrow> string" where
  "showRating rating = showNat (rating div 2) @ (if odd rating then ''.5'' else [])"

text \<open>\<^verbatim>\<open>s.repeat(n)\<close>, and the glyphs: a black star, a glowing star, one half.\<close>

definition repeat :: "string \<Rightarrow> nat \<Rightarrow> string" where
  "repeat s n = concat (replicate n s)"

definition blackStar :: string where
  "blackStar = [CHR 0xE2, CHR 0x98, CHR 0x85]"

definition glowingStar :: string where
  "glowingStar = [CHR 0xE2, CHR 0xAD, CHR 0x90]"

definition oneHalf :: string where
  "oneHalf = [CHR 0xC2, CHR 0xBD]"

fun starParser :: "nat option \<Rightarrow> int \<Rightarrow> string" where
  "starParser None star = []"
| "starParser (Some rating) star =
     (if star = 1
      then ''('' @ repeat blackStar (rating div 2) @ (if odd rating then oneHalf else []) @ '')''
      else if star = 2
      then ''('' @ repeat glowingStar (rating div 2) @ (if odd rating then oneHalf else []) @ '')''
      else ''('' @ showRating rating @ '' stars)'')"

text \<open>
  White space as \<^verbatim>\<open>trim\<close> removes it (the ASCII part), and the test
  \<^verbatim>\<open>text && text.trim() !== ""\<close>.
\<close>

definition whitespace :: "char \<Rightarrow> bool" where
  "whitespace c = (c \<in> set [CHR 0x09, CHR 0x0A, CHR 0x0B, CHR 0x0C, CHR 0x0D, CHR 0x20])"

definition nonBlank :: "string \<Rightarrow> bool" where
  "nonBlank text = (length text \<noteq> 0 \<and> filter (\<lambda>c. \<not> whitespace c) text \<noteq> [])"

text \<open>The separator put between paragraphs: \<^verbatim>\<open>'\r > \r > '\<close>.\<close>

definition paragraphSep :: string where
  "paragraphSep = [CR] @ '' > '' @ [CR] @ '' > ''"

text \<open>
  \<^verbatim>\<open>reviewText\<close> in \<^verbatim>\<open>printOut\<close>: the non-blank paragraph texts joined, then set to
  \<^verbatim>\<open>null\<close> (here \<open>None\<close>) when the joined text contains \<^verbatim>\<open>Watched on\<close>.
\<close>

definition joinedParagraphs :: "host \<Rightarrow> rss_entry \<Rightarrow> string" where
  "joinedParagraphs h item =
     join paragraphSep (filter nonBlank (paragraphTexts h (description item)))"

definition reviewText :: "host \<Rightarrow> rss_entry \<Rightarrow> string option" where
  "reviewText h item =
     (if contains (joinedParagraphs h item) ''Watched on'' then None
      else Some (joinedParagraphs h item))"

text \<open>A string or \<^verbatim>\<open>null\<close> used as a condition: \<^verbatim>\<open>null\<close> and \<^verbatim>\<open>''\<close> are false.\<close>

definition truthy :: "string option \<Rightarrow> bool" where
  "truthy t = (case t of None \<Rightarrow> False | Some s \<Rightarrow> length s \<noteq> 0)"

definition orEmpty :: "string option \<Rightarrow> string" where
  "orEmpty t = (case t of None \<Rightarrow> [] | Some s \<Rightarrow> s)"

definition formattedDate :: "host \<Rightarrow> string \<Rightarrow> rss_entry \<Rightarrow> string" where
  "formattedDate h fmt item =
     (if length fmt \<noteq> 0 then momentFormat h (watchedDate item) fmt else watchedDate item)"

text \<open>\<^verbatim>\<open>reference\<close>: the third piece of the guid; a missing piece prints as \<^verbatim>\<open>undefined\<close>.\<close>

definition reference :: "settings \<Rightarrow> rss_entry \<Rightarrow> string" where
  "reference s item =
     (if addReferenceId s
      then '' ^letterboxd'' @
        (let pieces = split CHR ''-'' (guid item)
         in if 2 < length pieces then pieces ! 2 else ''undefined'')
      else [])"

definition printOut :: "host \<Rightarrow> settings \<Rightarrow> rss_entry \<Rightarrow> string" where
  "printOut h s item =
     (let img = imgSrc h (description item);
          review = reviewText h item;
          filmTitle = decodeHtmlEntities h (filmTitle item);
          watchedDate = formattedDate h (dateFormat s) item;
          strs = starParser (memberRating item) (stars s);
          heading = ''> [!letterboxd]+ '' @
            (if memberRating item \<noteq> None \<or> truthy review then ''Review: '' else ''Watched: '') @
            '' ['' @ filmTitle @ '']('' @ link item @ '') '' @ strs @ '' - [['' @ watchedDate @
            '']] '' @ [CR] @ ''> ''
      in case callout s of
           List \<Rightarrow>
             ''- '' @
             (if length strs \<noteq> 0
              then ''Reviewed ['' @ filmTitle @ '']('' @ link item @ '') '' @ strs
              else ''Watched ['' @ filmTitle @ '']('' @ link item @ '')'') @
             '' on [['' @ watchedDate @ '']]''
         | ListReview \<Rightarrow>
             ''- '' @ (if truthy review then ''Reviewed '' else ''Watched '') @
             '' ['' @ filmTitle @ '']('' @ link item @ '') '' @ strs @
             '' on [['' @ watchedDate @ '']] '' @
             (if truthy review then [CR] @ '' >'' @ orEmpty review @ [LF] else [])
         | Callout \<Rightarrow>
             heading @ (if truthy review then orEmpty review else []) @ reference s item @ [LF]
         | CalloutPoster \<Rightarrow>
             heading @
             (if truthy review
              then (if truthy img
                    then ''!['' @ filmTitle @ ''|200]('' @ orEmpty img @ '') '' @ [CR] @ ''> '' @
                         orEmpty review
                    else orEmpty review)
              else []) @
             reference s item @ [LF])"


section \<open>The sync command\<close>

text \<open>
  The items sorted by publication time (oldest first for \<^verbatim>\<open>'Old'\<close>, newest first
  otherwise; the sort is stable) and rendered.
\<close>

definition diaryMdArr :: "host \<Rightarrow> settings \<Rightarrow> rss_entry list \<Rightarrow> string list" where
  "diaryMdArr h s items =
     map (printOut h s)
       (if sort s = ''Old'' then sort_key (\<lambda>item. getTime h (pubDate item)) items
        else sort_key (\<lambda>item. - getTime h (pubDate item)) items)"

text \<open>
  What the command can change: the requests sent, the folders created and the notes of the
  vault (path to text).
\<close>

record world =
  requests :: "string list"
  folders :: "string list"
  files :: "string \<rightharpoonup> string"

datatype error = Error string

definition fileName :: "host \<Rightarrow> settings \<Rightarrow> string" where
  "fileName h s = normalizePath h (if endsWith (path s) ''.md'' then path s else path s @ ''.md'')"

text \<open>
  The second \<^verbatim>\<open>then\<close> of the command, from \<^verbatim>\<open>getFileByPath\<close> on.  The calls to the vault are
  taken in the order the code issues them.
\<close>

definition writeDiary :: "host \<Rightarrow> settings \<Rightarrow> string list \<Rightarrow> world \<Rightarrow> world" where
  "writeDiary h s lines w =
     (case files w (fileName h s) of
        None \<Rightarrow>
          (let pathArray = butlast (split CHR ''/'' (path s));
               w1 = (if 1 < length pathArray
                     then w\<lparr>folders := folders w @ [join ''/'' pathArray]\<rparr> else w)
           in w1\<lparr>files := (files w1)(fileName h s \<mapsto> join [LF] lines)\<rparr>)
      | Some data \<Rightarrow>
          (let frontMatter = frontMatterOf (parseFrontMatter h data)
           in w\<lparr>files := (files w)(fileName h s \<mapsto>
                  processCallback frontMatter (sort s) lines data)\<rparr>))"

definition syncCallback :: "host \<Rightarrow> settings \<Rightarrow> world \<Rightarrow> error option \<times> world" where
  "syncCallback h s w =
     (if length (username s) = 0 then (Some (Error ''Cannot get data for blank username''), w)
      else
        (let url = ''https://letterboxd.com/'' @ username s @ ''/rss/'';
             w1 = w\<lparr>requests := requests w @ [url]\<rparr>
         in case requestItems h url of
              None \<Rightarrow> (None, w1)
            | Some items \<Rightarrow> (None, writeDiary h s (diaryMdArr h s items) w1)))"

section \<open>Example inputs\<close>

text \<open>
  The entry of the example in the source's comment on \<^verbatim>\<open>RSSEntry\<close> (rating 4, that is
  eight half stars), default settings with a user name, and a host whose DOM finds the
  given paragraph texts and no image, whose date and path functions return their argument,
  and which finds no front matter.
\<close>

definition ahsoka :: rss_entry where
  "ahsoka =
     \<lparr>title = ''Ahsoka, 2023'',
      link = ''https://letterboxd.com/fleker/film/ahsoka/'',
      guid = ''letterboxd-review-568742403'',
      pubDate = ''Thu, 4 Apr 2024 17:28:09 +1300'',
      watchedDate = ''2024-04-04'',
      filmTitle = ''Ahsoka'',
      memberRating = Some 8,
      description = ''<p>...</p>''\<rparr>"

definition defaultSettings :: settings where
  "defaultSettings =
     \<lparr>username = ''fleker'', dateFormat = [], path = ''Letterboxd Diary'', sort = ''Old'',
      callout = List, stars = 0, addReferenceId = False\<rparr>"

definition plainHost :: "string list \<Rightarrow> host" where
  "plainHost ps =
     \<lparr>textareaValue = (\<lambda>text. text),
      imgSrc = (\<lambda>d. None),
      paragraphTexts = (\<lambda>d. ps),
      momentFormat = (\<lambda>d f. d),
      requestItems = (\<lambda>url. None),
      getTime = (\<lambda>d. 0),
      normalizePath = (\<lambda>p. p),
      parseFrontMatter = (\<lambda>d. [])\<rparr>"

definition emptyWorld :: world where
  "emptyWorld = \<lparr>requests = [], folders = [], files = Map.empty\<rparr>"

text \<open>
  A second entry (the next line of the example in the README), and a feed of the two
  entries read with the style \<^verbatim>\<open>Callout\<close>; the DOM finds the paragraph \<^verbatim>\<open>Loved it.\<close> in each.
\<close>

definition risingOfTheMoon :: rss_entry where
  "risingOfTheMoon =
     \<lparr>title = ''The Rising of the Moon, 1957'',
      link = ''https://letterboxd.com/fleker/film/the-rising-of-the-moon/'',
      guid = ''letterboxd-review-566000000'',
      pubDate = ''Sat, 30 Mar 2024 17:00:00 +1300'',
      watchedDate = ''2024-03-30'',
      filmTitle = ''The Rising of the Moon'',
      memberRating = Some 8,
      description = ''<p>...</p>''\<rparr>"

definition twoEntryHost :: host where
  "twoEntryHost = (plainHost [''Loved it.''])\<lparr>requestItems := (\<lambda>url. Some [risingOfTheMoon, ahsoka])\<rparr>"

definition calloutSettings :: settings where
  "calloutSettings = defaultSettings\<lparr>callout := Callout\<rparr>"

section \<open>Notions used in the proofs\<close>

text \<open>
  The lines \<open>objToFrontmatter\<close> writes for one key, each without its final newline; a list
  of lines written out with a newline after each; and the front matter objects whose keys
  and values contain no newline.
\<close>

fun fm_lines :: "string \<times> fm_value \<Rightarrow> string list" where
  "fm_lines (key, Array vs) = (key @ '':'') # map (\<lambda>v. ''  - '' @ v) vs"
| "fm_lines (key, Scalar v) = [key @ '': '' @ v]"

definition terminated :: "string list \<Rightarrow> string" where
  "terminated ls = concat (map (\<lambda>l. l @ [LF]) ls)"

definition fm_single_line :: "fm_obj \<Rightarrow> bool" where
  "fm_single_line fm =
     list_all (\<lambda>(key, v). LF \<notin> set key \<and>
        (case v of Scalar x \<Rightarrow> LF \<notin> set x | Array xs \<Rightarrow> list_all (\<lambda>x. LF \<notin> set x) xs)) fm"

section \<open>Facts about \<open>split\<close>, \<open>join\<close> and the filter\<close>

lemma split_nonempty: "split c s \<noteq> []"
  by (induction s) (auto split: list.splits)

lemma join_split: "join [c] (split c s) = s"
proof (induction s)
  case Nil show ?case by simp
next
  case (Cons x xs)
  then show ?case
    by (cases "split c xs"; cases "tl (split c xs)") (auto simp: split_nonempty)
qed

lemma split_no_sep: "l \<in> set (split c s) \<Longrightarrow> c \<notin> set l"
  by (induction s arbitrary: l) (auto split: if_splits list.splits)

lemma split_append_sep: "c \<notin> set l \<Longrightarrow> split c (l @ c # rest) = l # split c rest"
  by (induction l) auto

lemma split_plain: "c \<notin> set l \<Longrightarrow> split c l = [l]"
  by (induction l) auto

lemma join_Cons: "ys \<noteq> [] \<Longrightarrow> join sep (x # ys) = x @ sep @ join sep ys"
  by (cases ys) auto

lemma join_append: "xs \<noteq> [] \<Longrightarrow> ys \<noteq> [] \<Longrightarrow> join sep (xs @ ys) = join sep xs @ sep @ join sep ys"
proof (induction xs)
  case Nil then show ?case by simp
next
  case (Cons x xs)
  show ?case
  proof (cases "xs = []")
    case True with Cons.prems show ?thesis by (simp add: join_Cons)
  next
    case False
    with Cons show ?thesis by (simp add: join_Cons)
  qed
qed

lemma split_join: "ls \<noteq> [] \<Longrightarrow> \<forall>l\<in>set ls. c \<notin> set l \<Longrightarrow> split c (join [c] ls) = ls"
proof (induction ls)
  case Nil then show ?case by simp
next
  case (Cons x xs)
  show ?case
  proof (cases "xs = []")
    case True with Cons.prems show ?thesis by (simp add: split_plain)
  next
    case False
    with Cons show ?thesis by (simp add: join_Cons split_append_sep)
  qed
qed

lemma processCallback_eq:
  "processCallback fmt srt new data
     = fmt @ join [LF] (finalEntries srt (diaryContentsArr fmt data) new)"
  by (simp add: processCallback_def Let_def)

lemma newEntries_filter: "newEntries contents new = filter (\<lambda>entry. entry \<notin> set contents) new"
  by (simp add: newEntries_def)

lemma count_list_filter: "count_list (filter P xs) x = (if P x then count_list xs x else 0)"
  by (induction xs) auto

lemma count_newEntries:
  "count_list (newEntries contents new) entry
     = (if entry \<in> set contents then 0 else count_list new entry)"
  by (simp add: newEntries_filter count_list_filter)

lemma count_finalEntries:
  "count_list (finalEntries srt contents new) entry
     = count_list contents entry + count_list (newEntries contents new) entry"
  by (simp add: finalEntries_def)

lemma filter_existing_newEntries:
  "filter (\<lambda>l. l \<in> set contents) (newEntries contents new) = []"
  by (simp add: newEntries_filter)

section \<open>Order of the splice\<close>

text \<open>
  C5.  For an existing note, with the setting \<^verbatim>\<open>'Old'\<close> (ascending) the lines written are the
  existing body lines followed by the new lines that survive the filter; with
  \<^verbatim>\<open>'New'\<close> (descending) the surviving new lines come first and the existing body lines
  follow.  Whatever the setting, keeping of the written lines only those that are existing
  body lines gives back the existing body lines, each as often as before and in their
  original order; and the text written is the front matter followed by the spliced lines
  joined by newline.
\<close>

theorem order_respect:
  "finalEntries ''Old'' (diaryContentsArr fmt data) new
     = diaryContentsArr fmt data @ newEntries (diaryContentsArr fmt data) new
   \<and> finalEntries ''New'' (diaryContentsArr fmt data) new
     = newEntries (diaryContentsArr fmt data) new @ diaryContentsArr fmt data
   \<and> filter (\<lambda>l. l \<in> set (diaryContentsArr fmt data))
        (finalEntries srt (diaryContentsArr fmt data) new) = diaryContentsArr fmt data
   \<and> processCallback fmt srt new data
     = fmt @ join [LF] (finalEntries srt (diaryContentsArr fmt data) new)"
  by (simp add: finalEntries_def processCallback_eq filter_existing_newEntries)

theorem order_respect_witness:
  "processCallback [] ''Old'' [''L0'', ''L1''] (''K'' @ [LF] @ ''L0'') = ''K'' @ [LF] @ ''L0'' @ [LF] @ ''L1''
   \<and> processCallback [] ''New'' [''L0'', ''L1''] (''K'' @ [LF] @ ''L0'') = ''L1'' @ [LF] @ ''K'' @ [LF] @ ''L0''"
  using order_respect [of "[]" "''K'' @ [LF] @ ''L0''" "[''L0'', ''L1'']" "''Old''"]
    order_respect [of "[]" "''K'' @ [LF] @ ''L0''" "[''L0'', ''L1'']" "''New''"]
  by (simp add: diaryContentsArr_def newEntries_def LF_def)

section \<open>Deduplication against the existing body\<close>



text \<open>
  C10.  The filter compares the rendered lines with the existing body only, never with one
  another: a rendered line that is not an existing body line occurs in the spliced lines
  as often as it occurs among the rendered lines (twice, if it was rendered twice), and the
  lines added are a subsequence of the rendered lines, so they keep their relative order.
\<close>

theorem duplicates_within_new_kept:
  "entry \<notin> set (diaryContentsArr fmt data) \<Longrightarrow>
     count_list (finalEntries srt (diaryContentsArr fmt data) new) entry = count_list new entry
     \<and> subseq (newEntries (diaryContentsArr fmt data) new) new
     \<and> processCallback fmt srt new data
         = fmt @ join [LF] (finalEntries srt (diaryContentsArr fmt data) new)"
  by (simp add: count_finalEntries count_newEntries processCallback_eq)
    (simp add: newEntries_filter)

theorem duplicates_within_new_kept_witness:
  "count_list (finalEntries ''Old'' (diaryContentsArr [] ''L0'') [''L1'', ''L1'']) ''L1'' = 2
   \<and> processCallback [] ''Old'' [''L1'', ''L1''] ''L0'' = ''L0'' @ [LF] @ ''L1'' @ [LF] @ ''L1''"
proof -
  have h: "''L1'' \<notin> set (diaryContentsArr [] ''L0'')"
    by (simp add: diaryContentsArr_def LF_def)
  show ?thesis
    using duplicates_within_new_kept [OF h, of "''Old''" "[''L1'', ''L1'']"]
    by (simp add: diaryContentsArr_def finalEntries_def newEntries_def LF_def)
qed

section \<open>The guard on the user name\<close>

text \<open>With a user name, the request for that user's feed is sent, whatever happens next.\<close>

lemma writeDiary_requests: "requests (writeDiary h s lines w) = requests w"
  by (simp add: writeDiary_def Let_def split: option.splits)

lemma nonblank_username_requests:
  "length (username s) \<noteq> 0 \<Longrightarrow>
     requests (snd (syncCallback h s w))
       = requests w @ [''https://letterboxd.com/'' @ username s @ ''/rss/'']"
  by (simp add: syncCallback_def Let_def writeDiary_requests split: option.splits)

text \<open>
  C8.  With an empty user name the command ends with the error at once: no request has been
  sent, no folder created and no note written, the world is as it was.
\<close>

theorem blank_username_aborts:
  "length (username s) = 0 \<Longrightarrow>
     syncCallback h s w = (Some (Error ''Cannot get data for blank username''), w)"
  by (simp add: syncCallback_def)

theorem blank_username_aborts_witness:
  "syncCallback (plainHost []) (defaultSettings\<lparr>username := []\<rparr>) emptyWorld
     = (Some (Error ''Cannot get data for blank username''), emptyWorld)
   \<and> requests emptyWorld = [] \<and> files emptyWorld = Map.empty"
proof -
  have h: "length (username (defaultSettings\<lparr>username := []\<rparr>)) = 0"
    by simp
  show ?thesis
    using blank_username_aborts [OF h, of "plainHost []" emptyWorld]
    by (simp add: emptyWorld_def)
qed

section \<open>The front matter of an existing note\<close>

lemma frontMatterOf_nonempty: "fm \<noteq> [] \<Longrightarrow> frontMatterOf fm = objToFrontmatter fm"
  by (simp add: frontMatterOf_def)

lemma objToFrontmatter_nonempty: "objToFrontmatter fm \<noteq> []"
  by (simp add: objToFrontmatter_def)







section \<open>Creating a missing note\<close>

lemma absent_note_created:
  "files w (fileName h s) = None \<Longrightarrow>
     files (writeDiary h s lines w) (fileName h s) = Some (join [LF] lines)
     \<and> requests (writeDiary h s lines w) = requests w"
  by (simp add: writeDiary_def Let_def)

text \<open>
  C6 at the path \<^verbatim>\<open>Movies/Diary\<close> in an empty vault: the note is created with the lines
  joined by newline, but no folder is created, since after \<^verbatim>\<open>pop\<close> the array of folder names
  has length one and the guard asks for more than one.  At \<^verbatim>\<open>Shows/Movies/Diary\<close> the folder
  \<^verbatim>\<open>Shows/Movies\<close> is created.
\<close>

theorem single_folder_not_created:
  "writeDiary (plainHost []) (defaultSettings\<lparr>path := ''Movies/Diary''\<rparr>) [''L1'', ''L2''] emptyWorld
     = \<lparr>requests = [], folders = [],
        files = [''Movies/Diary.md'' \<mapsto> ''L1'' @ [LF] @ ''L2'']\<rparr>
   \<and> folders (writeDiary (plainHost []) (defaultSettings\<lparr>path := ''Shows/Movies/Diary''\<rparr>)
        [''L1'', ''L2''] emptyWorld) = [''Shows/Movies'']"
  by (simp add: writeDiary_def fileName_def endsWith_def suffix_to_prefix plainHost_def defaultSettings_def
      emptyWorld_def)

section \<open>Rendering an entry without a rating\<close>





section \<open>The review text\<close>







section \<open>Running the merge twice\<close>

lemma newEntries_all_present: "set new \<subseteq> set contents \<Longrightarrow> newEntries contents new = []"
  by (auto simp: newEntries_filter filter_empty_conv)

lemma finalEntries_all_present:
  "set new \<subseteq> set contents \<Longrightarrow> finalEntries srt contents new = contents"
  by (simp add: finalEntries_def newEntries_all_present)

lemma set_finalEntries: "set (finalEntries srt contents new) = set contents \<union> set new"
  by (auto simp: finalEntries_def newEntries_filter)

lemma mergeNote_absent: "mergeNote fm srt new None = join [LF] new"
  by (simp add: mergeNote_def)

lemma mergeNote_plain:
  "mergeNote [] srt new (Some data) = join [LF] (finalEntries srt (split LF data) new)"
  by (simp add: mergeNote_def processCallback_eq frontMatterOf_def diaryContentsArr_def)

lemma rerun_settled:
  assumes "F \<noteq> []" and "\<forall>l\<in>set F. LF \<notin> set l" and "set new \<subseteq> set F"
  shows "mergeNote [] srt new (Some (join [LF] F)) = join [LF] F"
  using assms by (simp add: mergeNote_plain split_join finalEntries_all_present)

text \<open>
  When no rendered line contains a newline and the note has no front matter, a second run
  with the same rendered lines writes the note the first run wrote.
\<close>

lemma merge_idempotent_single_lines:
  assumes nl: "\<forall>e\<in>set new. LF \<notin> set e"
  shows "mergeNote [] srt new (Some (mergeNote [] srt new existing)) = mergeNote [] srt new existing"
proof (cases existing)
  case None
  show ?thesis
  proof (cases "new = []")
    case True
    with None show ?thesis
      by (simp add: mergeNote_absent mergeNote_plain finalEntries_def newEntries_filter)
  next
    case False
    with nl have "mergeNote [] srt new (Some (join [LF] new)) = join [LF] new"
      by (intro rerun_settled) auto
    with None show ?thesis by (simp add: mergeNote_absent)
  qed
next
  case (Some data)
  let ?F = "finalEntries srt (split LF data) new"
  have "?F \<noteq> []"
    using split_nonempty [of LF data] by (simp add: finalEntries_def)
  moreover have "\<forall>l\<in>set ?F. LF \<notin> set l"
    using nl split_no_sep [of _ LF data] by (auto simp: set_finalEntries)
  moreover have "set new \<subseteq> set ?F"
    by (simp add: set_finalEntries)
  ultimately have "mergeNote [] srt new (Some (join [LF] ?F)) = join [LF] ?F"
    by (rule rerun_settled)
  with Some show ?thesis by (simp add: mergeNote_plain)
qed

lemma fm_entry_lines: "fm_entry e = terminated (fm_lines e)"
  by (cases e rule: fm_lines.cases) (simp_all add: terminated_def comp_def)

lemma entries_lines: "concat (map fm_entry fm) = terminated (concat (map fm_lines fm))"
  by (induction fm) (simp_all add: fm_entry_lines terminated_def)

lemma split_terminated:
  "\<forall>l\<in>set ls. LF \<notin> set l \<Longrightarrow> split LF (terminated ls @ rest) = ls @ split LF rest"
  by (induction ls) (simp_all add: terminated_def split_append_sep)

lemma skip_past_lines:
  "''---'' \<notin> set ls \<Longrightarrow> skipFrontMatter 1 (ls @ ''---'' # rest) = rest"
  by (induction ls) auto

lemma fm_lines_ok:
  assumes "fm_single_line fm" and "l \<in> set (concat (map fm_lines fm))"
  shows "LF \<notin> set l \<and> l \<noteq> ''---''"
proof -
  from assms(2) obtain key v where kv: "(key, v) \<in> set fm" and l: "l \<in> set (fm_lines (key, v))"
    by auto
  from assms(1) kv have k: "LF \<notin> set key"
    and vv: "case v of Scalar x \<Rightarrow> LF \<notin> set x | Array xs \<Rightarrow> list_all (\<lambda>x. LF \<notin> set x) xs"
    by (auto simp: fm_single_line_def list_all_iff)
  have ne: "l \<noteq> ''---''" if "CHR '':'' \<in> set l"
  proof
    assume "l = ''---''"
    with that show False by simp
  qed
  show ?thesis
  proof (cases v)
    case (Scalar x)
    with l have eq: "l = key @ '': '' @ x" by simp
    then have "CHR '':'' \<in> set l" by simp
    then have "l \<noteq> ''---''" by (rule ne)
    moreover have "LF \<notin> set l" using eq k vv Scalar by (simp add: LF_def)
    ultimately show ?thesis by simp
  next
    case (Array xs)
    with l consider "l = key @ '':''" | x where "x \<in> set xs" "l = ''  - '' @ x" by auto
    then show ?thesis
    proof cases
      case 1
      then have "CHR '':'' \<in> set l" by simp
      then have "l \<noteq> ''---''" by (rule ne)
      moreover have "LF \<notin> set l" using 1 k by (simp add: LF_def)
      ultimately show ?thesis by simp
    next
      case 2
      with vv Array show ?thesis by (auto simp: list_all_iff LF_def)
    qed
  qed
qed

lemma skip_written_block:
  assumes "fm_single_line fm"
  shows "skipFrontMatter 0 (split LF (objToFrontmatter fm @ body)) = split LF body"
proof -
  let ?ls = "concat (map fm_lines fm)"
  have nl: "\<forall>l\<in>set ?ls. LF \<notin> set l" and nd: "''---'' \<notin> set ?ls"
    using fm_lines_ok [OF assms] by blast+
  have d: "LF \<notin> set ''---''" by (simp add: LF_def)
  have "objToFrontmatter fm @ body = ''---'' @ LF # (terminated ?ls @ ''---'' @ LF # body)"
    by (simp add: objToFrontmatter_def entries_lines)
  then have "split LF (objToFrontmatter fm @ body)
      = ''---'' # split LF (terminated ?ls @ ''---'' @ LF # body)"
    using split_append_sep [OF d] by simp
  also have "split LF (terminated ?ls @ ''---'' @ LF # body) = ?ls @ split LF (''---'' @ LF # body)"
    using nl by (rule split_terminated)
  also have "split LF (''---'' @ LF # body) = ''---'' # split LF body"
    using d by (rule split_append_sep)
  finally show ?thesis
    using skip_past_lines [OF nd] by simp
qed

lemma skip_no_sep: "\<forall>l\<in>set ls. P l \<Longrightarrow> \<forall>l\<in>set (skipFrontMatter n ls). P l"
  by (induction n ls rule: skipFrontMatter.induct) auto

lemma mergeNote_front_matter:
  "fm \<noteq> [] \<Longrightarrow> mergeNote fm srt new (Some data)
       = objToFrontmatter fm @ join [LF] (finalEntries srt (skipFrontMatter 0 (split LF data)) new)"
  by (simp add: mergeNote_def processCallback_eq frontMatterOf_nonempty diaryContentsArr_def
      objToFrontmatter_nonempty)

text \<open>
  The same with front matter, when the host parses the same object from the rewritten note
  and no key or value contains a newline.
\<close>

lemma merge_idempotent_front_matter:
  assumes nl: "\<forall>e\<in>set new. LF \<notin> set e" and fm: "fm \<noteq> []" "fm_single_line fm"
  shows "mergeNote fm srt new (Some (mergeNote fm srt new (Some data)))
           = mergeNote fm srt new (Some data)"
proof -
  let ?B = "skipFrontMatter 0 (split LF data)"
  let ?F = "finalEntries srt ?B new"
  have "\<forall>l\<in>set (split LF data). LF \<notin> set l"
    using split_no_sep [of _ LF data] by blast
  then have body: "\<forall>l\<in>set ?B. LF \<notin> set l"
    by (rule skip_no_sep)
  have first: "mergeNote fm srt new (Some data) = objToFrontmatter fm @ join [LF] ?F"
    using fm(1) by (rule mergeNote_front_matter)
  have sk: "skipFrontMatter 0 (split LF (objToFrontmatter fm @ join [LF] ?F)) = split LF (join [LF] ?F)"
    using fm(2) by (rule skip_written_block)
  have Fnl: "\<forall>l\<in>set ?F. LF \<notin> set l"
    using nl body by (auto simp: set_finalEntries)
  have sub: "set new \<subseteq> set ?F"
    by (simp add: set_finalEntries)
  have "join [LF] (finalEntries srt (split LF (join [LF] ?F)) new) = join [LF] ?F"
  proof (cases "?F = []")
    case True
    with sub have "new = []" by simp
    with True show ?thesis by (simp add: finalEntries_def newEntries_filter)
  next
    case False
    with Fnl have "split LF (join [LF] ?F) = ?F" by (simp add: split_join)
    with sub show ?thesis by (simp add: finalEntries_all_present)
  qed
  with first sk show ?thesis
    using mergeNote_front_matter [OF fm(1), of srt new "objToFrontmatter fm @ join [LF] ?F"]
    by simp
qed

text \<open>
  A rendered entry that contains a newline is never equal to a line of the note, so the
  second run adds it again.  Every entry of the style \<^verbatim>\<open>Callout\<close> ends with a newline.
\<close>

lemma rerun_duplicates_multiline:
  assumes "LF \<in> set e"
  shows "mergeNote [] srt [e] (Some (mergeNote [] srt [e] None)) = e @ [LF] @ e"
proof -
  have "e \<notin> set (split LF e)"
    using assms split_no_sep [of e LF e] by blast
  then have n: "newEntries (split LF e) [e] = [e]"
    by (simp add: newEntries_filter)
  have "join [LF] (split LF e @ [e]) = e @ [LF] @ e"
    by (simp add: join_append split_nonempty join_split)
  moreover have "join [LF] ([e] @ split LF e) = e @ [LF] @ e"
    by (simp add: join_Cons split_nonempty join_split)
  ultimately show ?thesis
    using n by (simp add: mergeNote_absent mergeNote_plain finalEntries_def)
qed

lemma printOut_callout_multiline: "LF \<in> set (printOut h (s\<lparr>callout := Callout\<rparr>) item)"
  by (simp add: printOut_def Let_def)

lemma writeDiary_mergeNote:
  "files (writeDiary h s lines w) (fileName h s)
     = Some (mergeNote (case files w (fileName h s) of None \<Rightarrow> [] | Some data \<Rightarrow> parseFrontMatter h data)
               (sort s) lines (files w (fileName h s)))"
  by (simp add: writeDiary_def mergeNote_def Let_def split: option.splits)

text \<open>
  C1 at the style \<^verbatim>\<open>Callout\<close>: the command run twice on an empty vault, the feed holding the
  same two entries both times.  The first run creates the note with the two entries; the
  second run writes both entries a second time after them, so the note is not what the
  first run wrote.
\<close>

theorem callout_rerun_duplicates:
  "files (snd (syncCallback twoEntryHost calloutSettings emptyWorld)) ''Letterboxd Diary.md''
     = Some (''> [!letterboxd]+ Review:  [The Rising of the Moon](https://letterboxd.com/fleker/film/the-rising-of-the-moon/) (4 stars) - [[2024-03-30]] '' @
             [CR] @ ''> Loved it.'' @ [LF] @ [LF] @
             ''> [!letterboxd]+ Review:  [Ahsoka](https://letterboxd.com/fleker/film/ahsoka/) (4 stars) - [[2024-04-04]] '' @
             [CR] @ ''> Loved it.'' @ [LF])
   \<and> files (snd (syncCallback twoEntryHost calloutSettings
                 (snd (syncCallback twoEntryHost calloutSettings emptyWorld))))
       ''Letterboxd Diary.md''
     = Some (''> [!letterboxd]+ Review:  [The Rising of the Moon](https://letterboxd.com/fleker/film/the-rising-of-the-moon/) (4 stars) - [[2024-03-30]] '' @
             [CR] @ ''> Loved it.'' @ [LF] @ [LF] @
             ''> [!letterboxd]+ Review:  [Ahsoka](https://letterboxd.com/fleker/film/ahsoka/) (4 stars) - [[2024-04-04]] '' @
             [CR] @ ''> Loved it.'' @ [LF] @ [LF] @
             ''> [!letterboxd]+ Review:  [The Rising of the Moon](https://letterboxd.com/fleker/film/the-rising-of-the-moon/) (4 stars) - [[2024-03-30]] '' @
             [CR] @ ''> Loved it.'' @ [LF] @ [LF] @
             ''> [!letterboxd]+ Review:  [Ahsoka](https://letterboxd.com/fleker/film/ahsoka/) (4 stars) - [[2024-04-04]] '' @
             [CR] @ ''> Loved it.'' @ [LF])"
  by (simp add: syncCallback_def writeDiary_def fileName_def endsWith_def suffix_to_prefix
      diaryMdArr_def printOut_def twoEntryHost_def calloutSettings_def plainHost_def
      defaultSettings_def ahsoka_def risingOfTheMoon_def emptyWorld_def
      reviewText_def joinedParagraphs_def nonBlank_def whitespace_def paragraphSep_def truthy_def
      orEmpty_def formattedDate_def decodeHtmlEntities_def showRating_def showNat.simps
      reference_def processCallback_eq frontMatterOf_def diaryContentsArr_def finalEntries_def
      newEntries_def LF_def CR_def)

end
